theory Spec2Isabelle
  imports Main "HOL-Library.AList"
begin

section \<open>Python values of \<^verbatim>\<open>scripts/boolean_search.py\<close>\<close>

text \<open>
  Every value the script handles beyond its typed configuration comes out of a JSON
  document (the API response) or is a string. Such a value is a \<open>json\<close>: \<open>JNull\<close> is
  Python's \<open>None\<close>, \<open>JObj\<close> a \<open>dict\<close> with string keys in insertion order, \<open>JArr\<close> a
  \<open>list\<close>. JSON numbers with a fraction or an exponent (Python floats) are left out.
  Strings are lists of ASCII characters.
\<close>

datatype json =
    JNull
  | JBool bool
  | JInt int
  | JStr string
  | JArr "json list"
  | JObj "(string \<times> json) list"

text \<open>The exceptions that occur; all of them are subclasses of Python's \<open>Exception\<close>.\<close>

datatype exn =
    AttributeError
  | TypeError
  | JSONDecodeError
  | HTTPError int
  | RequestException
  | FileNotFoundError
  | OSError

text \<open>A search result as \<open>run_query\<close> builds it: a dict with string keys.\<close>

type_synonym item = "(string \<times> json) list"

text \<open>\<open>d.get(k, dflt)\<close>; \<open>d.get(k)\<close> is \<open>dict_get d k JNull\<close>.\<close>

definition dict_get :: "(string \<times> json) list \<Rightarrow> string \<Rightarrow> json \<Rightarrow> json" where
  "dict_get d k dflt = (case map_of d k of Some v \<Rightarrow> v | None \<Rightarrow> dflt)"

text \<open>Truth value of an object, as \<open>or\<close>, \<open>if\<close> and \<open>not\<close> test it.\<close>

fun truthy :: "json \<Rightarrow> bool" where
  "truthy JNull = False"
| "truthy (JBool b) = b"
| "truthy (JInt n) = (n \<noteq> 0)"
| "truthy (JStr s) = (s \<noteq> [])"
| "truthy (JArr xs) = (xs \<noteq> [])"
| "truthy (JObj kvs) = (kvs \<noteq> [])"

text \<open>\<open>a or b\<close>\<close>

definition py_or :: "json \<Rightarrow> json \<Rightarrow> json" where
  "py_or a b = (if truthy a then a else b)"

subsection \<open>Strings\<close>

text \<open>\<open>str.lower\<close> on ASCII text: the letters A to Z move to a to z, all else stays.\<close>

definition lower_char :: "char \<Rightarrow> char" where
  "lower_char c =
     (let n = (of_char c :: nat) in if 65 \<le> n \<and> n \<le> 90 then char_of (n + 32) else c)"

definition lower :: "string \<Rightarrow> string" where
  "lower s = map lower_char s"

text \<open>\<open>v.lower()\<close>: only a \<open>str\<close> has the method.\<close>

fun str_lower :: "json \<Rightarrow> exn + string" where
  "str_lower (JStr s) = Inr (lower s)"
| "str_lower _ = Inl AttributeError"

text \<open>\<open>s.startswith(p)\<close> and the substring test \<open>p in s\<close>.\<close>

fun starts_with :: "string \<Rightarrow> string \<Rightarrow> bool" where
  "starts_with [] s = True"
| "starts_with (p # ps) [] = False"
| "starts_with (p # ps) (c # cs) = (p = c \<and> starts_with ps cs)"

fun str_in :: "string \<Rightarrow> string \<Rightarrow> bool" where
  "str_in p [] = (p = [])"
| "str_in p (c # cs) = (starts_with p (c # cs) \<or> str_in p cs)"

text \<open>\<open>any(p in s for p in ps)\<close>\<close>

definition contains_any :: "string list \<Rightarrow> string \<Rightarrow> bool" where
  "contains_any ps s = list_ex (\<lambda>p. str_in p s) ps"

section \<open>The classifier\<close>

definition ATS_JOB_PATTERNS :: "string list" where
  "ATS_JOB_PATTERNS =
     [''greenhouse.io'', ''lever.co'', ''myworkdayjobs.com'', ''careers.icims.com'',
      ''/jobs/'', ''/job/'', ''/careers/'', ''/opening/'', ''/apply/'', ''/position/'']"

definition bad_signals :: "string list" where
  "bad_signals = [''/blog/'', ''/news/'', ''/press/'', ''/about/'', ''/company/'', ''/search?'']"

definition job_title_signals :: "string list" where
  "job_title_signals =
     [''manager'', ''director'', ''engineer'', ''analyst'',
      ''specialist'', ''lead'', ''associate'', ''coordinator'']"

text \<open>
  \<open>is_job_posting\<close>: both strings are lowercased first (either \<open>.lower()\<close> raises on a
  truthy value that is not a string), then the three checks run in the source's order.
\<close>

definition is_job_posting :: "item \<Rightarrow> exn + bool" where
  "is_job_posting item =
     (case str_lower (py_or (dict_get item ''url'' JNull) (JStr [])) of
        Inl e \<Rightarrow> Inl e
      | Inr url \<Rightarrow>
     (case str_lower (py_or (dict_get item ''title'' JNull) (JStr [])) of
        Inl e \<Rightarrow> Inl e
      | Inr title \<Rightarrow>
          Inr (if contains_any ATS_JOB_PATTERNS url then True
               else if contains_any bad_signals url then False
               else contains_any job_title_signals title)))"

text \<open>A field holds text when it is a string or \<open>None\<close> (the key may also be absent).\<close>

fun is_text :: "json \<Rightarrow> bool" where
  "is_text (JStr s) = True"
| "is_text JNull = True"
| "is_text _ = False"

text \<open>The item with its \<open>url\<close> and \<open>title\<close> strings replaced by their lowercased forms.\<close>

fun lower_value :: "json \<Rightarrow> json" where
  "lower_value (JStr s) = JStr (lower s)"
| "lower_value v = v"

definition lowercased :: "item \<Rightarrow> item" where
  "lowercased item =
     map (\<lambda>kv. if fst kv = ''url'' \<or> fst kv = ''title'' then (fst kv, lower_value (snd kv)) else kv)
       item"

section \<open>The search client\<close>

text \<open>The JSON document posted to the API.\<close>

record payload =
  api_key :: string
  query :: string
  search_depth :: string
  max_results :: int
  days :: int

text \<open>
  What \<open>requests.post\<close> does with a request: it raises (connection failure, timeout
  and the like, all of them \<open>RequestException\<close>s), or it returns a response with a
  status code and a body. The body is given as \<open>resp.json()\<close> reads it: \<open>None\<close> when
  it is not a JSON document.
\<close>

datatype post_outcome =
    Post_raises
  | Post_responds int "json option"

text \<open>
  \<open>Response.raise_for_status\<close> of the \<open>requests\<close> library raises \<open>HTTPError\<close> for the
  client and server error codes, and for no other status.
\<close>

definition raise_for_status :: "int \<Rightarrow> bool" where
  "raise_for_status status \<longleftrightarrow> 400 \<le> status \<and> status < 600"

text \<open>\<open>v.get(k, dflt)\<close> on any value: only a dict has the method.\<close>

fun py_get :: "json \<Rightarrow> string \<Rightarrow> json \<Rightarrow> exn + json" where
  "py_get (JObj d) k dflt = Inr (dict_get d k dflt)"
| "py_get _ k dflt = Inl AttributeError"

text \<open>
  \<open>for r in v\<close>: a list gives its elements, a string its characters, a dict its keys;
  nothing else is iterable.
\<close>

fun py_iter :: "json \<Rightarrow> exn + json list" where
  "py_iter (JArr xs) = Inr xs"
| "py_iter (JStr s) = Inr (map (\<lambda>c. JStr [c]) s)"
| "py_iter (JObj kvs) = Inr (map (\<lambda>kv. JStr (fst kv)) kvs)"
| "py_iter _ = Inl TypeError"

text \<open>\<open>v[:200]\<close>: strings and lists can be sliced; any other value raises.\<close>

fun slice200 :: "json \<Rightarrow> exn + json" where
  "slice200 (JStr s) = Inr (JStr (take 200 s))"
| "slice200 (JArr xs) = Inr (JArr (take 200 xs))"
| "slice200 _ = Inl TypeError"

text \<open>A list comprehension whose element expression, or condition, may raise.\<close>

fun map_exn :: "('a \<Rightarrow> exn + 'b) \<Rightarrow> 'a list \<Rightarrow> exn + 'b list" where
  "map_exn f [] = Inr []"
| "map_exn f (x # xs) =
     (case f x of
        Inl e \<Rightarrow> Inl e
      | Inr y \<Rightarrow> (case map_exn f xs of Inl e \<Rightarrow> Inl e | Inr ys \<Rightarrow> Inr (y # ys)))"

fun filter_exn :: "('a \<Rightarrow> exn + bool) \<Rightarrow> 'a list \<Rightarrow> exn + 'a list" where
  "filter_exn f [] = Inr []"
| "filter_exn f (x # xs) =
     (case f x of
        Inl e \<Rightarrow> Inl e
      | Inr b \<Rightarrow>
          (case filter_exn f xs of
             Inl e \<Rightarrow> Inl e
           | Inr ys \<Rightarrow> Inr (if b then x # ys else ys)))"

text \<open>The dict built for one element \<open>r\<close> of the response's \<open>results\<close>.\<close>

definition result_of :: "json \<Rightarrow> exn + item" where
  "result_of r =
     (case py_get r ''url'' (JStr []) of Inl e \<Rightarrow> Inl e | Inr u \<Rightarrow>
     (case py_get r ''title'' (JStr []) of Inl e \<Rightarrow> Inl e | Inr t \<Rightarrow>
     (case py_get r ''content'' (JStr []) of Inl e \<Rightarrow> Inl e | Inr c \<Rightarrow>
     (case slice200 (py_or c (JStr [])) of Inl e \<Rightarrow> Inl e | Inr d \<Rightarrow>
        Inr [(''url'', u), (''title'', t), (''description'', d)]))))"

text \<open>The body of the \<open>try\<close> block of \<open>run_query\<close>, after the request has been made.\<close>

definition run_query_try :: "post_outcome \<Rightarrow> exn + item list" where
  "run_query_try outcome =
     (case outcome of
        Post_raises \<Rightarrow> Inl RequestException
      | Post_responds status body \<Rightarrow>
          if raise_for_status status then Inl (HTTPError status)
          else (case body of
                  None \<Rightarrow> Inl JSONDecodeError
                | Some j \<Rightarrow>
                    (case py_get j ''results'' (JArr []) of
                       Inl e \<Rightarrow> Inl e
                     | Inr results \<Rightarrow>
                         (case py_iter results of
                            Inl e \<Rightarrow> Inl e
                          | Inr rs \<Rightarrow> map_exn result_of rs))))"

text \<open>
  Diagnostics whose text holds non-ASCII characters or a message made by the
  interpreter are kept as values: the three warnings of \<open>run_query\<close>'s handlers, the
  dry-run header and the per-query count line of \<open>main\<close>.
\<close>

datatype notice =
    Invalid_api_key
  | Rate_limit_hit
  | Http_warning int
  | Query_failed exn
  | Dry_run_header nat int
  | Query_counts nat nat nat

text \<open>What a run does to the outside, in order.\<close>

datatype event =
    Request payload
  | Stdout string
  | Stderr string
  | Notice notice
  | Sleep int
  | Write_text string string

text \<open>
  \<open>run_query\<close>, given what the network does with the request. Both handlers end in
  \<open>return []\<close>, and \<open>except Exception\<close> takes every exception the \<open>try\<close> block can raise,
  so the function always returns a list.
\<close>

definition build_payload :: "string \<Rightarrow> int \<Rightarrow> string \<Rightarrow> int \<Rightarrow> payload" where
  "build_payload query_string num_results key days_back =
     \<lparr>api_key = key, query = query_string, search_depth = ''basic'',
      max_results = min num_results 20, days = days_back\<rparr>"

definition run_query ::
  "(payload \<Rightarrow> post_outcome) \<Rightarrow> string \<Rightarrow> int \<Rightarrow> string \<Rightarrow> int \<Rightarrow> event list \<times> item list" where
  "run_query post query_string num_results key days_back =
     (let payload = build_payload query_string num_results key days_back
      in case run_query_try (post payload) of
           Inr results \<Rightarrow> ([Request payload], results)
         | Inl (HTTPError status) \<Rightarrow>
             ([Request payload,
               Notice (if status = 401 then Invalid_api_key
                       else if status = 429 then Rate_limit_hit
                       else Http_warning status)], [])
         | Inl exc \<Rightarrow> ([Request payload, Notice (Query_failed exc)], []))"

text \<open>The payloads of the requests among the events.\<close>

fun requests_of :: "event list \<Rightarrow> payload list" where
  "requests_of [] = []"
| "requests_of (Request p # es) = p # requests_of es"
| "requests_of (e # es) = requests_of es"

text \<open>A network that treats every request the same way.\<close>

definition always :: "post_outcome \<Rightarrow> payload \<Rightarrow> post_outcome" where
  "always outcome p = outcome"

text \<open>
  A response body is malformed when it is not JSON, or not an object, or its \<open>results\<close>
  is not an array, or an element of that array is not an object.
\<close>

fun is_object :: "json \<Rightarrow> bool" where
  "is_object (JObj d) = True"
| "is_object _ = False"

fun malformed :: "json option \<Rightarrow> bool" where
  "malformed None = True"
| "malformed (Some (JObj d)) =
     (case map_of d ''results'' of
        None \<Rightarrow> False
      | Some (JArr xs) \<Rightarrow> list_ex (\<lambda>x. \<not> is_object x) xs
      | Some _ \<Rightarrow> True)"
| "malformed (Some _) = True"

text \<open>
  A request fails when it raises, when the status is a client or server error, or when
  the body is malformed.
\<close>

fun failed :: "post_outcome \<Rightarrow> bool" where
  "failed Post_raises = True"
| "failed (Post_responds status body) = ((400 \<le> status \<and> status < 600) \<or> malformed body)"

section \<open>The deduplicator\<close>

text \<open>
  The seen-set is a Python \<open>set\<close>. Lists and dicts are unhashable; \<open>True\<close> and \<open>False\<close>
  are equal to, and hash as, 1 and 0. The set holds the keys so normalised.
\<close>

fun hash_key :: "json \<Rightarrow> exn + json" where
  "hash_key (JArr xs) = Inl TypeError"
| "hash_key (JObj kvs) = Inl TypeError"
| "hash_key (JBool b) = Inr (JInt (if b then 1 else 0))"
| "hash_key v = Inr v"

text \<open>\<open>v not in seen_urls\<close>\<close>

definition not_in :: "json \<Rightarrow> json set \<Rightarrow> exn + bool" where
  "not_in v seen = (case hash_key v of Inl e \<Rightarrow> Inl e | Inr k \<Rightarrow> Inr (k \<notin> seen))"

text \<open>
  \<open>filter_new_results\<close>, with the seen-set passed through: the second component is the
  set as the call leaves it.
\<close>

definition filter_new_results :: "item list \<Rightarrow> json set \<Rightarrow> (exn + item list) \<times> json set" where
  "filter_new_results results seen_urls =
     (filter_exn (\<lambda>r. not_in (dict_get r ''url'' JNull) seen_urls) results, seen_urls)"

section \<open>The report formatter\<close>

text \<open>Decimal digits of a number, as an f-string prints an \<open>int\<close>.\<close>

fun str_of_nat :: "nat \<Rightarrow> string" where
  "str_of_nat n =
     (if n < 10 then [char_of (48 + n)]
      else str_of_nat (n div 10) @ [char_of (48 + n mod 10)])"

declare str_of_nat.simps [simp del]

definition str_of_int :: "int \<Rightarrow> string" where
  "str_of_int i = (if i < 0 then ''-'' @ str_of_nat (nat (- i)) else str_of_nat (nat i))"

text \<open>
  \<open>str(v)\<close>, as an f-string inserts a value. For a list or a dict it is Python's
  \<open>repr\<close>, which is taken as the parameter \<open>rp\<close>.
\<close>

fun py_str :: "(json \<Rightarrow> string) \<Rightarrow> json \<Rightarrow> string" where
  "py_str rp (JStr s) = s"
| "py_str rp JNull = ''None''"
| "py_str rp (JBool b) = (if b then ''True'' else ''False'')"
| "py_str rp (JInt n) = str_of_int n"
| "py_str rp v = rp v"

text \<open>A stand-in for \<open>repr\<close> in the examples, none of which prints a list or a dict.\<close>

definition sample_repr :: "json \<Rightarrow> string" where
  "sample_repr v = ''[...]''"

definition entry_lines :: "(json \<Rightarrow> string) \<Rightarrow> nat \<times> item \<Rightarrow> string list" where
  "entry_lines rp e =
     (case e of (i, item) \<Rightarrow>
        [''--- Result '' @ str_of_nat i @ '' ---'',
         ''Title: '' @ py_str rp (dict_get item ''title'' (JStr [])),
         ''URL: '' @ py_str rp (dict_get item ''url'' (JStr [])),
         ''Snippet: '' @ py_str rp (dict_get item ''description'' (JStr [])),
         ''---''])"

text \<open>The lines one pass of the loop over \<open>results_by_query.items()\<close> appends.\<close>

definition section_lines :: "(json \<Rightarrow> string) \<Rightarrow> string \<times> item list \<Rightarrow> string list" where
  "section_lines rp kv =
     (case kv of (query_name, results) \<Rightarrow>
        if results = [] then []
        else [''Query: '' @ [CHR 0x22] @ query_name @ [CHR 0x22]]
             @ concat (map (entry_lines rp) (List.enumerate 1 results))
             @ [[]])"

definition header_line :: "string \<Rightarrow> string" where
  "header_line run_date = ''=== BOOLEAN SEARCH RESULTS - '' @ run_date @ '' ===''"

definition source_line :: string where
  "source_line = ''Source: Direct ATS search via Tavily (Greenhouse, Lever, Workday, ICIMS)''"

definition no_results_sentence :: string where
  "no_results_sentence = ''No new job postings found via Boolean search today.''"

text \<open>The list \<open>lines\<close> as it stands when the function returns.\<close>

definition format_lines ::
  "(json \<Rightarrow> string) \<Rightarrow> (string \<times> item list) list \<Rightarrow> string \<Rightarrow> string list" where
  "format_lines rp results_by_query run_date =
     (let lines = [header_line run_date, source_line, []];
          total = sum_list (map (\<lambda>kv. length (snd kv)) results_by_query)
      in if total = 0 then lines @ [no_results_sentence]
         else lines @ concat (map (section_lines rp) results_by_query))"

text \<open>\<open>"\n".join(lines)\<close>\<close>

fun join_lines :: "string list \<Rightarrow> string" where
  "join_lines [] = []"
| "join_lines [l] = l"
| "join_lines (l # m # ls) = l @ [CHR 0x0A] @ join_lines (m # ls)"

definition format_as_text_block ::
  "(json \<Rightarrow> string) \<Rightarrow> (string \<times> item list) list \<Rightarrow> string \<Rightarrow> string" where
  "format_as_text_block rp results_by_query run_date =
     join_lines (format_lines rp results_by_query run_date)"

section \<open>Configuration and history\<close>

text \<open>
  The config file's content, typed as the script reads it: every setting may be absent
  (a default applies), \<open>enabled\<close> may be absent (the query then counts as enabled), and
  a query has its \<open>name\<close> and \<open>string\<close>.
\<close>

record settings =
  s_results_per_query :: "int option"
  s_delay_between_queries_seconds :: "int option"
  s_days_back :: "int option"

record query_entry =
  q_name :: string
  q_string :: string
  q_enabled :: "bool option"

record config =
  cfg_settings :: "settings option"
  cfg_queries :: "query_entry list option"

text \<open>\<open>str.strip()\<close> on ASCII text, and \<open>load_job_history\<close> on the lines of the file.\<close>

definition is_space :: "char \<Rightarrow> bool" where
  "is_space c = (let n = (of_char c :: nat) in (9 \<le> n \<and> n \<le> 13) \<or> (28 \<le> n \<and> n \<le> 32))"

definition strip :: "string \<Rightarrow> string" where
  "strip s = rev (dropWhile is_space (rev (dropWhile is_space s)))"

text \<open>
  The history file is \<open>None\<close> when the path does not exist, otherwise the list
  \<open>read_text().splitlines()\<close> gives.
\<close>

definition load_job_history :: "string list option \<Rightarrow> json set" where
  "load_job_history history =
     (case history of
        None \<Rightarrow> {}
      | Some file_lines \<Rightarrow> set (map (\<lambda>l. JStr (strip l)) (filter (\<lambda>l. strip l \<noteq> []) file_lines)))"

section \<open>The orchestrator\<close>

text \<open>
  Everything \<open>main\<close> takes from outside: the command line, the environment variable,
  what \<open>load_config\<close> does with the config path (it returns a config or raises), the
  history file, what the network does with the \<open>i\<close>-th request of the run, today's date
  and the interpreter's \<open>repr\<close>.
\<close>

record world =
  arg_config :: string
  arg_output :: "string option"
  arg_api_key :: "string option"
  arg_dry_run :: bool
  env_api_key :: "string option"
  load_config :: "exn + config"
  history_file :: "string list option"
  tavily :: "nat \<Rightarrow> payload \<Rightarrow> post_outcome"
  today :: string
  repr :: "json \<Rightarrow> string"

text \<open>
  \<open>args.api_key\<close>: the flag, else the environment variable \<open>BOOLEAN_TAVILY_API_KEY\<close>,
  else the empty string.
\<close>

definition resolved_api_key :: "world \<Rightarrow> string" where
  "resolved_api_key w =
     (case arg_api_key w of
        Some k \<Rightarrow> k
      | None \<Rightarrow> (case env_api_key w of Some k \<Rightarrow> k | None \<Rightarrow> []))"

text \<open>How the process ends: \<open>sys.exit(n)\<close>, or an exception nobody catches.\<close>

datatype ending = Exit int | Uncaught exn

text \<open>The interpreter exits with status 1 after an uncaught exception.\<close>

definition exit_status :: "ending \<Rightarrow> int" where
  "exit_status e = (case e of Exit n \<Rightarrow> n | Uncaught x \<Rightarrow> 1)"

text \<open>The variables the loop over the queries updates.\<close>

record run_state =
  seen_urls :: "json set"
  results_by_query :: "(string \<times> item list) list"
  total_new :: nat

text \<open>\<open>for r in new_results: seen_urls.add(r.get("url"))\<close>\<close>

fun add_urls :: "item list \<Rightarrow> json set \<Rightarrow> exn + json set" where
  "add_urls [] seen = Inr seen"
| "add_urls (r # rs) seen =
     (case hash_key (dict_get r ''url'' JNull) of
        Inl e \<Rightarrow> Inl e
      | Inr k \<Rightarrow> add_urls rs (insert k seen))"

text \<open>
  One pass of the loop, for the query \<open>q\<close> at index \<open>i\<close> of \<open>n\<close> enabled queries. It gives
  the events of the pass, and the new state or the exception that ends the run.
\<close>

definition run_one ::
  "world \<Rightarrow> int \<Rightarrow> int \<Rightarrow> int \<Rightarrow> nat \<Rightarrow> nat \<Rightarrow> query_entry \<Rightarrow> run_state
     \<Rightarrow> event list \<times> (exn + run_state)" where
  "run_one w num_results delay days_back n i q st =
     (case run_query (tavily w i) (q_string q) num_results (resolved_api_key w) days_back of
        (sent, raw) \<Rightarrow>
     (let ev = [Stderr (''[BOOLEAN] Running: '' @ q_name q)] @ sent in
      case filter_exn is_job_posting raw of
        Inl e \<Rightarrow> (ev, Inl e)
      | Inr job_results \<Rightarrow>
     (case filter_new_results job_results (seen_urls st) of
        (Inl e, seen) \<Rightarrow> (ev, Inl e)
      | (Inr new_results, seen) \<Rightarrow>
     (case add_urls new_results seen of
        Inl e \<Rightarrow> (ev, Inl e)
      | Inr seen' \<Rightarrow>
          (ev @ [Notice (Query_counts (length raw) (length job_results) (length new_results))]
              @ (if int i < int n - 1 \<and> delay > 0 then [Sleep delay] else []),
           Inr \<lparr>seen_urls = seen',
                results_by_query = AList.update (q_name q) new_results (results_by_query st),
                total_new = total_new st + length new_results\<rparr>)))))"

text \<open>The loop \<open>for i, q in enumerate(queries)\<close>, from index \<open>i\<close> on.\<close>

fun run_loop ::
  "world \<Rightarrow> int \<Rightarrow> int \<Rightarrow> int \<Rightarrow> nat \<Rightarrow> nat \<Rightarrow> query_entry list \<Rightarrow> run_state
     \<Rightarrow> event list \<times> (exn + run_state)" where
  "run_loop w num_results delay days_back n i [] st = ([], Inr st)"
| "run_loop w num_results delay days_back n i (q # qs) st =
     (case run_one w num_results delay days_back n i q st of
        (ev, Inl e) \<Rightarrow> (ev, Inl e)
      | (ev, Inr st') \<Rightarrow>
          (case run_loop w num_results delay days_back n (Suc i) qs st' of
             (ev', r) \<Rightarrow> (ev @ ev', r)))"

text \<open>The settings with their defaults, and the enabled queries.\<close>

definition num_results_of :: "config \<Rightarrow> int" where
  "num_results_of c =
     (case cfg_settings c of None \<Rightarrow> 10
      | Some s \<Rightarrow> (case s_results_per_query s of None \<Rightarrow> 10 | Some v \<Rightarrow> v))"

definition delay_of :: "config \<Rightarrow> int" where
  "delay_of c =
     (case cfg_settings c of None \<Rightarrow> 2
      | Some s \<Rightarrow> (case s_delay_between_queries_seconds s of None \<Rightarrow> 2 | Some v \<Rightarrow> v))"

definition days_back_of :: "config \<Rightarrow> int" where
  "days_back_of c =
     (case cfg_settings c of None \<Rightarrow> 7
      | Some s \<Rightarrow> (case s_days_back s of None \<Rightarrow> 7 | Some v \<Rightarrow> v))"

definition enabled_queries :: "config \<Rightarrow> query_entry list" where
  "enabled_queries c =
     filter (\<lambda>q. case q_enabled q of None \<Rightarrow> True | Some b \<Rightarrow> b)
       (case cfg_queries c of None \<Rightarrow> [] | Some qs \<Rightarrow> qs)"

text \<open>The loop of \<open>main\<close> from its initial state, for a loaded config.\<close>

definition collect :: "world \<Rightarrow> config \<Rightarrow> event list \<times> (exn + run_state)" where
  "collect w c =
     run_loop w (num_results_of c) (delay_of c) (days_back_of c)
       (length (enabled_queries c)) 0 (enabled_queries c)
       \<lparr>seen_urls = load_job_history (history_file w), results_by_query = [], total_new = 0\<rparr>"

definition setup_instructions :: string where
  "setup_instructions =
     ''[BOOLEAN] ERROR: BOOLEAN_TAVILY_API_KEY not set.'' @ [CHR 0x0A]
     @ ''  Sign up at https://app.tavily.com (free: 1,000 queries/month)'' @ [CHR 0x0A]
     @ ''  Then add to .env: export BOOLEAN_TAVILY_API_KEY='' @ [CHR 0x27] @ ''tvly-...''
     @ [CHR 0x27]"

text \<open>What the run does after the loop: the report, then the summary line.\<close>

definition emit_report :: "world \<Rightarrow> nat \<Rightarrow> run_state \<Rightarrow> event list" where
  "emit_report w n st =
     (let output_text = format_as_text_block (repr w) (results_by_query st) (today w) in
      [case arg_output w of
         None \<Rightarrow> Stdout output_text
       | Some path \<Rightarrow> if path \<noteq> [] then Write_text path output_text else Stdout output_text,
       Stderr (''[BOOLEAN] '' @ str_of_nat (total_new st) @ '' new jobs found across ''
               @ str_of_nat n @ '' queries'')])"

text \<open>\<open>main\<close>: the events of the run and how the process ends.\<close>

definition main :: "world \<Rightarrow> event list \<times> ending" where
  "main w =
     (case load_config w of
        Inl FileNotFoundError \<Rightarrow>
          ([Stderr (''[BOOLEAN] ERROR: Config not found at '' @ arg_config w)], Exit 0)
      | Inl e \<Rightarrow> ([], Uncaught e)
      | Inr c \<Rightarrow>
          (let queries = enabled_queries c in
           if queries = [] then
             ([Stderr ''[BOOLEAN] No enabled queries found in config''], Exit 0)
           else if arg_dry_run w then
             (Notice (Dry_run_header (length queries) (days_back_of c))
              # map (\<lambda>q. Stdout (''  ['' @ q_name q @ '']'' @ [CHR 0x0A] @ ''  '' @ q_string q
                                   @ [CHR 0x0A])) queries,
              Exit 0)
           else if resolved_api_key w = [] then ([Stderr setup_instructions], Exit 0)
           else
             (case collect w c of
                (ev, Inl e) \<Rightarrow> (ev, Uncaught e)
              | (ev, Inr st) \<Rightarrow> (ev @ emit_report w (length queries) st, Exit 0))))"

section \<open>Facts about strings\<close>

lemma starts_with_iff: "starts_with p s \<longleftrightarrow> (\<exists>b. s = p @ b)"
  by (induction p s rule: starts_with.induct) auto

lemma str_in_iff: "str_in p s \<longleftrightarrow> (\<exists>a b. s = a @ p @ b)"
proof (induction s)
  case Nil
  then show ?case by auto
next
  case (Cons c cs)
  show ?case
  proof
    assume "str_in p (c # cs)"
    then consider "starts_with p (c # cs)" | "str_in p cs" by auto
    then show "\<exists>a b. c # cs = a @ p @ b"
    proof cases
      case 1
      then obtain b where "c # cs = p @ b" using starts_with_iff by blast
      then have "c # cs = [] @ p @ b" by simp
      then show ?thesis by blast
    next
      case 2
      then obtain a b where "cs = a @ p @ b" using Cons.IH by blast
      then have "c # cs = (c # a) @ p @ b" by simp
      then show ?thesis by blast
    qed
  next
    assume "\<exists>a b. c # cs = a @ p @ b"
    then obtain a b where ab: "c # cs = a @ p @ b" by blast
    show "str_in p (c # cs)"
    proof (cases a)
      case Nil
      with ab have "starts_with p (c # cs)" using starts_with_iff by auto
      then show ?thesis by simp
    next
      case (Cons x a')
      with ab have "cs = a' @ p @ b" by simp
      then have "str_in p cs" using Cons.IH by blast
      then show ?thesis by simp
    qed
  qed
qed

lemma lower_append: "lower (a @ b) = lower a @ lower b"
  by (simp add: lower_def)

lemma str_in_lower: "str_in p s \<Longrightarrow> str_in (lower p) (lower s)"
proof -
  assume "str_in p s"
  then obtain a b where "s = a @ p @ b" using str_in_iff by blast
  then have "lower s = lower a @ lower p @ lower b" by (simp add: lower_append)
  then show ?thesis using str_in_iff by blast
qed

lemma lower_char_idem: "lower_char (lower_char c) = lower_char c"
proof -
  have "of_char (char_of (of_char c + 32 :: nat)) = (of_char c + 32 :: nat)"
    if "(of_char c :: nat) \<le> 90"
    using that by (simp add: of_char_of)
  then show ?thesis
    by (auto simp: lower_char_def Let_def)
qed

lemma lower_idem: "lower (lower s) = lower s"
  by (simp add: lower_def lower_char_idem)

lemma lower_Nil_iff: "lower s = [] \<longleftrightarrow> s = []"
  by (simp add: lower_def)

lemma contains_any_iff: "contains_any ps s \<longleftrightarrow> (\<exists>p\<in>set ps. str_in p s)"
  by (simp add: contains_any_def list_ex_iff)

section \<open>The classifier: claims C3, C4 and C10\<close>

lemma lower_ATS: "p \<in> set ATS_JOB_PATTERNS \<Longrightarrow> lower p = p"
  unfolding ATS_JOB_PATTERNS_def by (auto; code_simp)

lemma str_lower_url: "str_lower (py_or (JStr u) (JStr [])) = Inr (lower u)"
  by (simp add: py_or_def lower_def)

lemma str_lower_text: "is_text v \<Longrightarrow> \<exists>t. str_lower (py_or v (JStr [])) = Inr t"
  by (cases v) (simp_all add: py_or_def)

text \<open>With a string for its url and text for its title, the classifier returns.\<close>

lemma is_job_posting_text:
  assumes "dict_get item ''url'' JNull = JStr u"
    and "is_text (dict_get item ''title'' JNull)"
  obtains t where "str_lower (py_or (dict_get item ''title'' JNull) (JStr [])) = Inr t"
    and "is_job_posting item =
      Inr (if contains_any ATS_JOB_PATTERNS (lower u) then True
           else if contains_any bad_signals (lower u) then False
           else contains_any job_title_signals t)"
proof -
  obtain t where t: "str_lower (py_or (dict_get item ''title'' JNull) (JStr [])) = Inr t"
    using str_lower_text [OF assms(2)] by blast
  have "is_job_posting item =
      Inr (if contains_any ATS_JOB_PATTERNS (lower u) then True
           else if contains_any bad_signals (lower u) then False
           else contains_any job_title_signals t)"
    by (simp add: is_job_posting_def assms(1) str_lower_url t)
  with t show thesis using that by blast
qed

text \<open>
  Claim C3. A result item whose url is a string containing \<open>greenhouse.io\<close> is
  classified as a job posting, whatever its title (a string, \<open>None\<close> or absent) and
  whatever else the item holds.
\<close>

theorem greenhouse_url_is_job_posting:
  assumes "dict_get item ''url'' JNull = JStr u"
    and "str_in ''greenhouse.io'' u"
    and "is_text (dict_get item ''title'' JNull)"
  shows "is_job_posting item = Inr True"
proof -
  have "lower ''greenhouse.io'' = ''greenhouse.io''"
    by (rule lower_ATS) (simp add: ATS_JOB_PATTERNS_def)
  with assms(2) have "str_in ''greenhouse.io'' (lower u)"
    using str_in_lower by fastforce
  then have "contains_any ATS_JOB_PATTERNS (lower u)"
    by (auto simp: contains_any_iff ATS_JOB_PATTERNS_def)
  then show ?thesis
    using is_job_posting_text [OF assms(1) assms(3)] by metis
qed

text \<open>The title here holds a bad-signal word, and the url the segment \<open>/blog/\<close>.\<close>

theorem greenhouse_url_is_job_posting_witness:
  "is_job_posting
     [(''url'', JStr ''https://boards.greenhouse.io/acme/blog/''),
      (''title'', JStr ''Our Company Blog''), (''description'', JStr ''news'')] = Inr True"
proof -
  have u: "dict_get [(''url'', JStr ''https://boards.greenhouse.io/acme/blog/''),
      (''title'', JStr ''Our Company Blog''), (''description'', JStr ''news'')] ''url'' JNull
      = JStr ''https://boards.greenhouse.io/acme/blog/''"
    by (simp add: dict_get_def)
  have c: "str_in ''greenhouse.io'' ''https://boards.greenhouse.io/acme/blog/''"
    by code_simp
  have t: "is_text (dict_get [(''url'', JStr ''https://boards.greenhouse.io/acme/blog/''),
      (''title'', JStr ''Our Company Blog''), (''description'', JStr ''news'')] ''title'' JNull)"
    by (simp add: dict_get_def)
  show ?thesis
    by (rule greenhouse_url_is_job_posting [OF u c t])
qed

text \<open>
  Claim C4 as stated fails: the patterns are looked for in the lowercased url. The url
  below contains \<open>/blog/\<close> and none of the ATS patterns, yet lowercasing turns its
  \<open>/Jobs/\<close> into the pattern \<open>/jobs/\<close>, and the item is classified as a job posting.
\<close>

theorem blog_url_mixed_case_counterexample:
  "str_in ''/blog/'' ''https://example.com/blog/Jobs/announcement''
   \<and> \<not> contains_any ATS_JOB_PATTERNS ''https://example.com/blog/Jobs/announcement''
   \<and> is_job_posting
        [(''url'', JStr ''https://example.com/blog/Jobs/announcement''),
         (''title'', JStr ''Our Company Blog''), (''description'', JStr [])] = Inr True"
  by code_simp

text \<open>
  Claim C4, amended. A result item whose url, lowercased, contains \<open>/blog/\<close> and none of
  the ATS patterns is classified as not a job posting, whatever its title (a string,
  \<open>None\<close> or absent).
\<close>

theorem blog_url_is_not_job_posting:
  assumes "dict_get item ''url'' JNull = JStr u"
    and "str_in ''/blog/'' (lower u)"
    and "\<not> contains_any ATS_JOB_PATTERNS (lower u)"
    and "is_text (dict_get item ''title'' JNull)"
  shows "is_job_posting item = Inr False"
proof -
  have "contains_any bad_signals (lower u)"
    using assms(2) by (auto simp: contains_any_iff bad_signals_def)
  then show ?thesis
    using is_job_posting_text [OF assms(1) assms(4)] assms(3) by metis
qed

theorem blog_url_is_not_job_posting_witness:
  "is_job_posting
     [(''url'', JStr ''https://Example.com/Blog/hiring''),
      (''title'', JStr ''Senior Engineer''), (''description'', JStr [])] = Inr False"
proof -
  have u: "dict_get [(''url'', JStr ''https://Example.com/Blog/hiring''),
      (''title'', JStr ''Senior Engineer''), (''description'', JStr [])] ''url'' JNull
      = JStr ''https://Example.com/Blog/hiring''"
    by (simp add: dict_get_def)
  have b: "str_in ''/blog/'' (lower ''https://Example.com/Blog/hiring'')"
    by code_simp
  have a: "\<not> contains_any ATS_JOB_PATTERNS (lower ''https://Example.com/Blog/hiring'')"
    by code_simp
  have t: "is_text (dict_get [(''url'', JStr ''https://Example.com/Blog/hiring''),
      (''title'', JStr ''Senior Engineer''), (''description'', JStr [])] ''title'' JNull)"
    by (simp add: dict_get_def)
  show ?thesis
    by (rule blog_url_is_not_job_posting [OF u b a t])
qed

lemma dict_get_lowercased:
  "k = ''url'' \<or> k = ''title'' \<Longrightarrow>
     dict_get (lowercased item) k JNull = lower_value (dict_get item k JNull)"
  by (induction item) (auto simp: dict_get_def lowercased_def)

lemma str_lower_lower_value:
  "str_lower (py_or (lower_value v) (JStr [])) = str_lower (py_or v (JStr []))"
  by (cases v) (simp_all add: py_or_def lower_idem lower_Nil_iff)

text \<open>
  Claim C10. For every item, the classifier gives the same result (the same boolean, or
  the same exception) on the item and on the item with its url and title lowercased:
  all three checks see only the lowercased strings.
\<close>

theorem is_job_posting_case_insensitive:
  "is_job_posting (lowercased item) = is_job_posting item"
  unfolding is_job_posting_def
  by (simp only: dict_get_lowercased str_lower_lower_value simp_thms)

theorem is_job_posting_case_insensitive_witness:
  "lowercased [(''url'', JStr ''HTTPS://X.COM/Blog/''), (''title'', JStr ''Lead ENGINEER'')]
     = [(''url'', JStr ''https://x.com/blog/''), (''title'', JStr ''lead engineer'')]
   \<and> is_job_posting [(''url'', JStr ''https://x.com/blog/''), (''title'', JStr ''lead engineer'')]
     = is_job_posting [(''url'', JStr ''HTTPS://X.COM/Blog/''), (''title'', JStr ''Lead ENGINEER'')]"
proof -
  have l: "lowercased [(''url'', JStr ''HTTPS://X.COM/Blog/''), (''title'', JStr ''Lead ENGINEER'')]
     = [(''url'', JStr ''https://x.com/blog/''), (''title'', JStr ''lead engineer'')]"
    by code_simp
  show ?thesis
    using is_job_posting_case_insensitive
      [of "[(''url'', JStr ''HTTPS://X.COM/Blog/''), (''title'', JStr ''Lead ENGINEER'')]"]
    unfolding l by simp
qed

end
